theory Spec2Isabelle
  imports Main "HOL-Library.Sublist"
begin

section \<open>JavaScript values and the host page\<close>

text \<open>
  The SDK (\<^verbatim>\<open>src/pagify.js\<close>) keeps a counter and two callback tables, composes an HTML
  document as one string, mounts it in an iframe and later reacts to the messages the iframe
  posts. The model threads one state record through every operation. Errors thrown by the host
  are values of \<open>js_error\<close>; a promise is its settlement.

  Caller-supplied callbacks are opaque JavaScript functions. They are modelled as handles; a
  call is recorded in the trace of the state and is taken to return normally without touching
  the SDK. The two closures that \<^verbatim>\<open>generatePDF\<close> builds are modelled by what they do to
  the promise they close over. JavaScript numbers are exact on the integers below \<open>2^53\<close>;
  the instance counter is a natural number.

  Names are those of the source. Where a local variable or parameter of the source has the name
  of a record field, it is written with a prime.
\<close>

datatype js_error = JsError (error_message: string)

datatype 'a promise = Pending | Fulfilled 'a | Rejected js_error

datatype blob = Blob string

type_synonym node = nat

datatype pdf_callback =
    UserCallback nat
  | FetchThenResolve nat
  | RejectWithError nat

datatype query_result = Matched node | NoMatch | SyntaxError string

datatype effect =
    ConsoleLog "string list"
  | ConsoleWarn "string list"
  | ConsoleError "string list"
  | Invoked nat "string list"
  | DispatchEvent string string string

record iframe =
  style_width :: string
  style_height :: string
  style_border :: string
  style_position :: string
  style_top :: string
  style_left :: string
  srcdoc :: string

record env =
  has_window :: bool
  has_document :: bool
  document_body :: "node option"
  document_querySelector :: "string \<Rightarrow> query_result"
  window_fetch :: "string \<Rightarrow> js_error + blob"

record pdf_callbacks =
  pair_onPdfReady :: "pdf_callback option"
  pair_onPdfError :: "pdf_callback option"

record state =
  instanceCounter :: nat
  callbackStorage :: "nat \<rightharpoonup> nat option"
  pdfCallbackStorage :: "nat \<rightharpoonup> pdf_callbacks"
  listening :: bool
  children :: "node \<Rightarrow> iframe list"
  promises :: "blob promise list"
  trace :: "effect list"

record fragments =
  body_html :: string
  header_html :: string
  footer_html :: string
  head_html :: string
  page_size :: string
  margin_left :: string
  margin_right :: string
  header_height :: string
  footer_height :: string
  footer_only_on_last_page :: bool
  page_padding_top :: string

record options = fragments +
  page_number_selector :: string
  callback :: "nat option"
  onPdfReady :: "pdf_callback option"
  onPdfError :: "pdf_callback option"
  containerSelector :: "string option"

record build_args = fragments +
  instanceId :: nat
  pageNumberCSS :: string

record message =
  msg_type :: string
  msg_iter :: "nat option"
  msg_blobUrl :: string
  msg_error :: string

text \<open>The default value of every option, as the parameter list of \<^verbatim>\<open>render\<close> gives it.\<close>

definition default_options :: options where
  "default_options =
     \<lparr>body_html = '''', header_html = '''', footer_html = '''', head_html = '''',
      page_size = ''A4'', margin_left = ''0mm'', margin_right = ''0mm'',
      header_height = ''0mm'', footer_height = ''0mm'',
      footer_only_on_last_page = False, page_padding_top = ''16px'',
      page_number_selector = '''', callback = None, onPdfReady = None, onPdfError = None,
      containerSelector = None\<rparr>"

text \<open>A string is truthy when it is not empty; \<^verbatim>\<open>null\<close> is falsy.\<close>

fun truthy :: "string option \<Rightarrow> bool" where
  "truthy None = False"
| "truthy (Some s) = (s \<noteq> [])"

subsection \<open>Effects on the host\<close>

definition console_log :: "string list \<Rightarrow> state \<Rightarrow> state" where
  "console_log args s = s\<lparr>trace := trace s @ [ConsoleLog args]\<rparr>"

definition console_warn :: "string list \<Rightarrow> state \<Rightarrow> state" where
  "console_warn args s = s\<lparr>trace := trace s @ [ConsoleWarn args]\<rparr>"

definition console_error :: "string list \<Rightarrow> state \<Rightarrow> state" where
  "console_error args s = s\<lparr>trace := trace s @ [ConsoleError args]\<rparr>"

definition dispatchEvent :: "string \<Rightarrow> string \<Rightarrow> string \<Rightarrow> state \<Rightarrow> state" where
  "dispatchEvent name key val s = s\<lparr>trace := trace s @ [DispatchEvent name key val]\<rparr>"

text \<open>A promise settles once: resolving or rejecting a settled promise changes nothing.\<close>

definition settle :: "nat \<Rightarrow> blob promise \<Rightarrow> state \<Rightarrow> state" where
  "settle p v s =
     (if p < length (promises s) \<and> promises s ! p = Pending
      then s\<lparr>promises := (promises s)[p := v]\<rparr> else s)"

text \<open>\<^verbatim>\<open>callback()\<close>: the completion callback takes no argument.\<close>

definition call_completion :: "nat \<Rightarrow> state \<Rightarrow> state" where
  "call_completion f s = s\<lparr>trace := trace s @ [Invoked f []]\<rparr>"

text \<open>
  \<^verbatim>\<open>onPdfReady(blobUrl)\<close> and \<^verbatim>\<open>onPdfError(error)\<close>. The closures of
  \<^verbatim>\<open>generatePDF\<close> (lines 659-668) fetch the blob URL and resolve with the blob, or reject with
  \<^verbatim>\<open>new Error(error)\<close>.
\<close>

fun call_pdf :: "env \<Rightarrow> pdf_callback \<Rightarrow> string \<Rightarrow> state \<Rightarrow> state" where
  "call_pdf env (UserCallback f) arg s = s\<lparr>trace := trace s @ [Invoked f [arg]]\<rparr>"
| "call_pdf env (FetchThenResolve p) arg s =
     (case window_fetch env arg of
        Inr b \<Rightarrow> settle p (Fulfilled b) s
      | Inl e \<Rightarrow> settle p (Rejected e) s)"
| "call_pdf env (RejectWithError p) arg s = settle p (Rejected (JsError arg)) s"

section \<open>The instance registry\<close>

text \<open>
  \<^verbatim>\<open>constructor()\<close> (lines 21-31): the counter starts at 1, both tables are empty, and
  \<^verbatim>\<open>initMessageListener\<close> registers the listener only where a window exists.
\<close>

definition constructor :: "env \<Rightarrow> state" where
  "constructor env =
     \<lparr>instanceCounter = 1, callbackStorage = Map.empty, pdfCallbackStorage = Map.empty,
      listening = has_window env, children = (\<lambda>_. []), promises = [], trace = []\<rparr>"

text \<open>\<^verbatim>\<open>this.instanceCounter++\<close> (line 148): the old value is the identifier.\<close>

definition allocate :: "state \<Rightarrow> nat \<times> state" where
  "allocate s = (instanceCounter s, s\<lparr>instanceCounter := instanceCounter s + 1\<rparr>)"

section \<open>The document composer\<close>

text \<open>\<^verbatim>\<open>${instanceId}\<close> in a template literal: the decimal digits of the number.\<close>

definition digit :: "nat \<Rightarrow> char" where
  "digit d = ''0123456789'' ! d"

function number_toString :: "nat \<Rightarrow> string" where
  "number_toString n =
     (if n < 10 then [digit n] else number_toString (n div 10) @ [digit (n mod 10)])"
  by pat_completeness auto
termination
  by (relation "measure id") auto

text \<open>\<^verbatim>\<open>getPagedJSInitScript(instanceId)\<close>, lines 350-455.\<close>

definition getPagedJSInitScript :: "nat \<Rightarrow> string" where
  \<open>getPagedJSInitScript instanceId' = concat [
     ''\<newline>'',
     ''            // Wait for fonts to load before starting pagination\<newline>'',
     ''            document.fonts.ready.then(async () => {\<newline>'',
     ''                console.log("Fonts are ready");\<newline>'',
     ''                try {\<newline>'',
     ''                    // Import Paged.js dynamically\<newline>'',
     ''                    const { Previewer, Handler, registerHandlers } = await import(\'https://unpkg.com/pagedjs@0.4.3/dist/paged.esm.js\');\<newline>'',
     ''\<newline>'',
     ''                    class RepeatingTableHeaders extends Handler {\<newline>'',
     ''                        constructor(chunker, polisher, caller) {\<newline>'',
     ''                            super(chunker, polisher, caller);\<newline>'',
     ''                        }\<newline>'',
     ''\<newline>'',
     ''                        beforePageLayout(page) {\<newline>'',
     ''                            // console.log("page", page);\<newline>'',
     ''                            // page.height = 200;\<newline>'',
     ''                        }\<newline>'',
     ''\<newline>'',
     ''                        afterPageLayout(pageElement, page, breakToken, chunker) {\<newline>'',
     ''                            // Find all split table elements\<newline>'',
     ''                            let tables = pageElement.querySelectorAll("table[data-split-from]");\<newline>'',
     ''\<newline>'',
     ''                            tables.forEach((table) => {\<newline>'',
     ''                                // There is an edge case where the previous page table\<newline>'',
     ''                                // has zero height (isn\'t visible).\<newline>'',
     ''                                // To avoid double header we will only add header if there is none.\<newline>'',
     ''                                let tableHeader = table.querySelector("thead");\<newline>'',
     ''                                if (tableHeader) {\<newline>'',
     ''                                    return;\<newline>'',
     ''                                }\<newline>'',
     ''\<newline>'',
     ''                                // Get the reference UUID of the node\<newline>'',
     ''                                let ref = table.dataset.ref;\<newline>'',
     ''                                // Find the node in the original source\<newline>'',
     ''                                let sourceTable = chunker.source.querySelector("[data-ref=\'" + ref + "\']");\<newline>'',
     ''\<newline>'',
     ''                                // Find if there is a header\<newline>'',
     ''                                let sourceHeader = sourceTable.querySelector("thead");\<newline>'',
     ''                                if (sourceHeader) {\<newline>'',
     ''                                    console.log("Table header was cloned, because it is splitted.");\<newline>'',
     ''                                    // Clone the header element\<newline>'',
     ''                                    let clonedHeader = sourceHeader.cloneNode(true);\<newline>'',
     ''                                    // Insert the header at the start of the split table\<newline>'',
     ''                                    table.insertBefore(clonedHeader, table.firstChild);\<newline>'',
     ''                                }\<newline>'',
     ''                            });\<newline>'',
     ''\<newline>'',
     ''                            // Find all tables\<newline>'',
     ''                            tables = pageElement.querySelectorAll("table");\<newline>'',
     ''\<newline>'',
     ''                            // special case which might not fit for everyone\<newline>'',
     ''                            tables.forEach((table) => {\<newline>'',
     ''                                // if the table has no rows in body, hide it.\<newline>'',
     ''                                // This happens because my render engine creates empty tables.\<newline>'',
     ''                                let sourceBody = table.querySelector("tbody > tr");\<newline>'',
     ''                                if (!sourceBody) {\<newline>'',
     ''                                    console.log("Table was hidden, because it has no rows in tbody.");\<newline>'',
     ''                                    table.style.visibility = "hidden";\<newline>'',
     ''                                    table.style.position = "absolute";\<newline>'',
     ''\<newline>'',
     ''                                    var lineSpacer = table.nextSibling;\<newline>'',
     ''                                    if (lineSpacer) {\<newline>'',
     ''                                        lineSpacer.style.visibility = "hidden";\<newline>'',
     ''                                        lineSpacer.style.position = "absolute";\<newline>'',
     ''                                    }\<newline>'',
     ''                                }\<newline>'',
     ''                            });\<newline>'',
     ''                            // setting the page to show overflowing content\<newline>'',
     ''                            let contents = pageElement.querySelectorAll(".pagedjs_page_content");\<newline>'',
     ''                            contents.forEach((content) => {\<newline>'',
     ''                                content.style.height = \'max-content\';\<newline>'',
     ''                            });\<newline>'',
     ''                        }\<newline>'',
     ''                    }\<newline>'',
     ''                    registerHandlers(RepeatingTableHeaders);\<newline>'',
     ''                    \<newline>'',
     ''                    console.log(\'Paged.js imported successfully\');\<newline>'',
     ''                    \<newline>'',
     ''                    // Initialize pagination\<newline>'',
     ''                    const previewer = new Previewer();\<newline>'',
     ''                    const result = await previewer.preview();\<newline>'',
     ''                    \<newline>'',
     ''                    console.log(\'Paged.js pagination complete:\', result);\<newline>'',
     ''                    totalPages = result.total;\<newline>'',
     ''                    \<newline>'',
     ''                    // Notify parent window that rendering is complete\<newline>'',
     ''                    window.parent.postMessage({\<newline>'',
     ''                        type: "renderpdf", \<newline>'',
     ''                        iter: '',
     number_toString instanceId',
     ''\<newline>'',
     ''                    }, "*");\<newline>'',
     ''\<newline>'',
     ''                    // Auto-generate PDF\<newline>'',
     ''                    generatePdfBlob();\<newline>'',
     ''                    \<newline>'',
     ''                } catch (error) {\<newline>'',
     ''                    console.error(\'Failed to load or initialize Paged.js:\', error);\<newline>'',
     ''                    window.parent.postMessage({ \<newline>'',
     ''                        type: "PDF_ERROR", \<newline>'',
     ''                        error: "Failed to initialize Paged.js: " + error.message,\<newline>'',
     ''                        iter: '',
     number_toString instanceId',
     ''\<newline>'',
     ''                    }, "*");\<newline>'',
     ''                }\<newline>'',
     ''            });\<newline>'',
     ''        ''
  ]\<close>

text \<open>\<^verbatim>\<open>getPdfGenerationScript(instanceId)\<close>, lines 460-603.\<close>

definition getPdfGenerationScript :: "nat \<Rightarrow> string" where
  \<open>getPdfGenerationScript instanceId' = concat [
     ''\<newline>'',
     ''            // Generate PDF blob function for auto-trigger\<newline>'',
     ''            async function generatePdfBlob() {\<newline>'',
     ''                try {\<newline>'',
     ''                    console.log(\'Starting PDF generation...\');\<newline>'',
     ''                    \<newline>'',
     ''                    // Try dynamic import first, fallback to script loading\<newline>'',
     ''                    let html2pdfLib;\<newline>'',
     ''                    try {\<newline>'',
     ''                        // Import html2pdf dynamically\<newline>'',
     ''                        const html2pdfModule = await import(\'https://unpkg.com/html2pdf.js@0.10.1/dist/html2pdf.bundle.min.js\');\<newline>'',
     ''                        \<newline>'',
     ''                        console.log(\'html2pdf.js imported successfully\');\<newline>'',
     ''                        console.log(\'html2pdf module structure:\', Object.keys(html2pdfModule));\<newline>'',
     ''                        \<newline>'',
     ''                        // Try different ways to access html2pdf function\<newline>'',
     ''                        if (typeof html2pdfModule.default === \'function\') {\<newline>'',
     ''                            html2pdfLib = html2pdfModule.default;\<newline>'',
     ''                            console.log(\'Using html2pdfModule.default\');\<newline>'',
     ''                        } else if (typeof html2pdfModule.html2pdf === \'function\') {\<newline>'',
     ''                            html2pdfLib = html2pdfModule.html2pdf;\<newline>'',
     ''                            console.log(\'Using html2pdfModule.html2pdf\');\<newline>'',
     ''                        } else if (typeof window.html2pdf === \'function\') {\<newline>'',
     ''                            html2pdfLib = window.html2pdf;\<newline>'',
     ''                            console.log(\'Using window.html2pdf\');\<newline>'',
     ''                        } else {\<newline>'',
     ''                            // Fallback: look for any function in the module\<newline>'',
     ''                            const functionKeys = Object.keys(html2pdfModule).filter(key => typeof html2pdfModule[key] === \'function\');\<newline>'',
     ''                            if (functionKeys.length > 0) {\<newline>'',
     ''                                html2pdfLib = html2pdfModule[functionKeys[0]];\<newline>'',
     ''                                console.log(\'Using html2pdfModule.\' + functionKeys[0]);\<newline>'',
     ''                            } else {\<newline>'',
     ''                                throw new Error(\'html2pdf function not found in imported module\');\<newline>'',
     ''                            }\<newline>'',
     ''                        }\<newline>'',
     ''                        \<newline>'',
     ''                        if (typeof html2pdfLib !== \'function\') {\<newline>'',
     ''                            throw new Error(\'html2pdfLib is not a function. Available keys: \' + Object.keys(html2pdfModule).join(\', \'));\<newline>'',
     ''                        }\<newline>'',
     ''                    } catch (importError) {\<newline>'',
     ''                        console.warn(\'Dynamic import failed, trying script tag approach:\', importError);\<newline>'',
     ''                        \<newline>'',
     ''                        // Fallback: load via script tag\<newline>'',
     ''                        await new Promise((resolve, reject) => {\<newline>'',
     ''                            if (typeof window.html2pdf === \'function\') {\<newline>'',
     ''                                resolve();\<newline>'',
     ''                                return;\<newline>'',
     ''                            }\<newline>'',
     ''                            \<newline>'',
     ''                            const script = document.createElement(\'script\');\<newline>'',
     ''                            script.src = \'https://unpkg.com/html2pdf.js@0.10.1/dist/html2pdf.bundle.min.js\';\<newline>'',
     ''                            script.onload = () => {\<newline>'',
     ''                                if (typeof window.html2pdf === \'function\') {\<newline>'',
     ''                                    resolve();\<newline>'',
     ''                                } else {\<newline>'',
     ''                                    reject(new Error(\'html2pdf not available after loading script\'));\<newline>'',
     ''                                }\<newline>'',
     ''                            };\<newline>'',
     ''                            script.onerror = () => reject(new Error(\'Failed to load html2pdf script\'));\<newline>'',
     ''                            document.head.appendChild(script);\<newline>'',
     ''                        });\<newline>'',
     ''                        \<newline>'',
     ''                        html2pdfLib = window.html2pdf;\<newline>'',
     ''                        console.log(\'Using window.html2pdf from script tag\');\<newline>'',
     ''                    }\<newline>'',
     ''                    \<newline>'',
     ''                    // Use the whole body element\<newline>'',
     ''                    const targetElement = document.body;\<newline>'',
     ''                    console.log(\'Using body element for PDF generation\');\<newline>'',
     ''                    console.log(\'Element innerHTML length:\', targetElement.innerHTML.length);\<newline>'',
     ''                    \<newline>'',
     ''                    // Check if element has content\<newline>'',
     ''                    if (!targetElement || targetElement.innerHTML.trim().length === 0) {\<newline>'',
     ''                        throw new Error(\'No content found in body element\');\<newline>'',
     ''                    }\<newline>'',
     ''                    \<newline>'',
     ''                    console.log(\'Estimated pages:\', totalPages);\<newline>'',
     ''                    \<newline>'',
     ''                    const opt = {\<newline>'',
     ''                        margin: 0,\<newline>'',
     ''                        filename: "document.pdf",\<newline>'',
     ''                        image: { \<newline>'',
     ''                            type: "jpeg", \<newline>'',
     ''                            quality: 0.98 \<newline>'',
     ''                        },\<newline>'',
     ''                        html2canvas: { \<newline>'',
     ''                            scale: 2,\<newline>'',
     ''                            useCORS: true,\<newline>'',
     ''                            allowTaint: false,\<newline>'',
     ''                            backgroundColor: \'#ffffff\'\<newline>'',
     ''                        },\<newline>'',
     ''                        jsPDF: { \<newline>'',
     ''                            unit: "mm", \<newline>'',
     ''                            format: "a4", \<newline>'',
     ''                            orientation: "portrait",\<newline>'',
     ''                            compress: true\<newline>'',
     ''                        }\<newline>'',
     ''                    };\<newline>'',
     ''                    \<newline>'',
     ''                    console.log(\'Starting html2pdf conversion with body element\');\<newline>'',
     ''                    \<newline>'',
     ''                    html2pdfLib().set(opt).from(targetElement)\<newline>'',
     ''                        .toPdf()\<newline>'',
     ''                        .get("pdf").then(pdf => {\<newline>'',
     ''                            const pageCount = pdf.internal.getNumberOfPages();\<newline>'',
     ''                            console.log(\'Generated PDF with\', pageCount, \'pages\');\<newline>'',
     ''                            // Remove extra pages if necessary\<newline>'',
     ''                            if (pageCount > totalPages && totalPages > 0) {\<newline>'',
     ''                                for (let i = pageCount; i > totalPages; i--) {\<newline>'',
     ''                                    pdf.deletePage(i);\<newline>'',
     ''                                }\<newline>'',
     ''                            }\<newline>'',
     ''                        })\<newline>'',
     ''                        .outputPdf("blob").then(function (blob) {\<newline>'',
     ''                            console.log(\'PDF blob generated:\', blob);\<newline>'',
     ''                            const blobUrl = URL.createObjectURL(blob);\<newline>'',
     ''                            console.log("Blob URL:", blobUrl);\<newline>'',
     ''                            window.parent.postMessage({ \<newline>'',
     ''                                type: "PDF_READY", \<newline>'',
     ''                                blobUrl: blobUrl,\<newline>'',
     ''                                iter: '',
     number_toString instanceId',
     ''\<newline>'',
     ''                            }, "*");\<newline>'',
     ''                        })\<newline>'',
     ''                        .catch(error => {\<newline>'',
     ''                            console.error("PDF generation failed:", error);\<newline>'',
     ''                            window.parent.postMessage({ \<newline>'',
     ''                                type: "PDF_ERROR", \<newline>'',
     ''                                error: error.message,\<newline>'',
     ''                                iter: '',
     number_toString instanceId',
     ''\<newline>'',
     ''                            }, "*");\<newline>'',
     ''                        });\<newline>'',
     ''                        \<newline>'',
     ''                } catch (error) {\<newline>'',
     ''                    console.error("PDF generation error:", error);\<newline>'',
     ''                    window.parent.postMessage({ \<newline>'',
     ''                        type: "PDF_ERROR", \<newline>'',
     ''                        error: error.message,\<newline>'',
     ''                        iter: '',
     number_toString instanceId',
     ''\<newline>'',
     ''                    }, "*");\<newline>'',
     ''                }\<newline>'',
     ''            }\<newline>'',
     ''        ''
  ]\<close>

text \<open>
  The two conditional footer expressions of \<^verbatim>\<open>buildIframeHTML\<close>: lines 331-333, before the
  body, and lines 339-341, after it.
\<close>

definition footer_before_body :: "'a build_args_scheme \<Rightarrow> string" where
  \<open>footer_before_body a =
     (if footer_only_on_last_page a then ''''
      else concat [
        ''<div class="footer" style="width: 100%">\<newline>'',
        ''                        '',
        footer_html a,
        ''\<newline>'',
        ''                    </div>''
      ])\<close>

definition footer_after_body :: "'a build_args_scheme \<Rightarrow> string" where
  \<open>footer_after_body a =
     (if footer_only_on_last_page a
      then concat [
        ''<div class="footer" style="width: 100%">\<newline>'',
        ''                        '',
        footer_html a,
        ''\<newline>'',
        ''                    </div>''
      ]
      else '''')\<close>

text \<open>
  \<^verbatim>\<open>buildIframeHTML\<close>, lines 203-345. The template literal is one string; it is written
  here in its two sections, the \<^verbatim>\<open><head></head>\<close> element (lines 220-323) and the
  \<^verbatim>\<open><body></body>\<close> element (lines 324-342).
\<close>

definition iframe_head :: "'a build_args_scheme \<Rightarrow> string" where
  \<open>iframe_head a = concat [
     ''                <head>\<newline>'',
     ''                    <meta charset="UTF-8">\<newline>'',
     ''                    <meta name="viewport" content="width=device-width, initial-scale=1.0">\<newline>'',
     ''                    <script>\<newline>'',
     ''                        // Configure Paged.js\<newline>'',
     ''                        window.PagedConfig = {\<newline>'',
     ''                            auto: false,\<newline>'',
     ''                        }\<newline>'',
     ''                    </script>\<newline>'',
     ''                    <script>\<newline>'',
     ''                        let totalPages;\<newline>'',
     ''                        \<newline>'',
     ''                        // Import and initialize Paged.js\<newline>'',
     ''                        '',
     getPagedJSInitScript (instanceId a),
     ''\<newline>'',
     ''                        \<newline>'',
     ''                        // PDF Generation Script\<newline>'',
     ''                        '',
     getPdfGenerationScript (instanceId a),
     ''\<newline>'',
     ''                    </script>\<newline>'',
     ''                    <style>\<newline>'',
     ''                        /* Ensure print colors are preserved */\<newline>'',
     ''                        body {\<newline>'',
     ''                            -webkit-print-color-adjust: exact !important;\<newline>'',
     ''                            print-color-adjust: exact !important;\<newline>'',
     ''                            margin: 0;\<newline>'',
     ''                            padding: 0;\<newline>'',
     ''                        }\<newline>'',
     ''\<newline>'',
     ''                        /* Page numbering styles */\<newline>'',
     ''                        '',
     pageNumberCSS a,
     ''\<newline>'',
     ''\<newline>'',
     ''                        /* Header and footer positioning */\<newline>'',
     ''                        .header {\<newline>'',
     ''                            position: running(header);\<newline>'',
     ''                        }\<newline>'',
     ''                        \<newline>'',
     ''                        .footer {\<newline>'',
     ''                            position: running(footer);\<newline>'',
     ''                        }\<newline>'',
     ''                        \<newline>'',
     ''                        /* Paged.js content styling */\<newline>'',
     ''                        .pagedjs_page_content {\<newline>'',
     ''                            border-bottom-width: 1px;\<newline>'',
     ''                            border-top-width: 1px;\<newline>'',
     ''                            --tw-border-opacity: 1;\<newline>'',
     ''                            border-color: rgba(218, 222, 227, var(--tw-border-opacity));\<newline>'',
     ''                            padding-top: '',
     page_padding_top a,
     '';\<newline>'',
     ''                        }\<newline>'',
     ''                        \<newline>'',
     ''                        .pagedjs_pages {\<newline>'',
     ''                            align-items: center;\<newline>'',
     ''                            display: flex;\<newline>'',
     ''                            flex: 1;\<newline>'',
     ''                            flex-direction: column;\<newline>'',
     ''                        }\<newline>'',
     ''                        \<newline>'',
     ''                        /* Prevent table rows from breaking across pages */\<newline>'',
     ''                        tr {\<newline>'',
     ''                            break-inside: avoid;\<newline>'',
     ''                        }\<newline>'',
     ''                        \<newline>'',
     ''                        /* Page layout configuration */\<newline>'',
     ''                        @page {\<newline>'',
     ''                            margin-left: '',
     margin_left a,
     '';\<newline>'',
     ''                            margin-right: '',
     margin_right a,
     '';\<newline>'',
     ''                            margin-top: '',
     header_height a,
     '';\<newline>'',
     ''                            margin-bottom: '',
     footer_height a,
     '';\<newline>'',
     ''                            size: '',
     page_size a,
     '';\<newline>'',
     ''                        \<newline>'',
     ''                            @bottom-center {\<newline>'',
     ''                                content: element(footer);\<newline>'',
     ''                            }\<newline>'',
     ''                        \<newline>'',
     ''                            @top-center {\<newline>'',
     ''                                content: element(header);\<newline>'',
     ''                            }\<newline>'',
     ''                        }\<newline>'',
     ''\<newline>'',
     ''                        /* Base64 image optimization */\<newline>'',
     ''                        img {\<newline>'',
     ''                            max-width: 100%;\<newline>'',
     ''                            height: auto;\<newline>'',
     ''                        }\<newline>'',
     ''\<newline>'',
     ''                        /* Print-friendly table styles */\<newline>'',
     ''                        table {\<newline>'',
     ''                            border-collapse: collapse;\<newline>'',
     ''                            width: 100%;\<newline>'',
     ''                        }\<newline>'',
     ''\<newline>'',
     ''                        /* Page break controls */\<newline>'',
     ''                        .page-break-before {\<newline>'',
     ''                            page-break-before: always;\<newline>'',
     ''                        }\<newline>'',
     ''\<newline>'',
     ''                        .page-break-after {\<newline>'',
     ''                            page-break-after: always;\<newline>'',
     ''                        }\<newline>'',
     ''\<newline>'',
     ''                        .page-break-inside-avoid {\<newline>'',
     ''                            page-break-inside: avoid;\<newline>'',
     ''                        }\<newline>'',
     ''                    </style>\<newline>'',
     ''                    '',
     head_html a,
     ''\<newline>'',
     ''                </head>\<newline>''
  ]\<close>

definition iframe_body :: "'a build_args_scheme \<Rightarrow> string" where
  \<open>iframe_body a = concat [
     ''                <body>\<newline>'',
     ''                    <!-- Header content (appears on every page) -->\<newline>'',
     ''                    <div class="header" style="width: 100%">\<newline>'',
     ''                        '',
     header_html a,
     ''\<newline>'',
     ''                    </div>\<newline>'',
     ''                    \<newline>'',
     ''                    <!-- Footer content (conditional positioning) -->\<newline>'',
     ''                    '',
     footer_before_body a,
     ''\<newline>'',
     ''                    \<newline>'',
     ''                    <!-- Main body content -->\<newline>'',
     ''                    '',
     body_html a,
     ''\<newline>'',
     ''\<newline>'',
     ''                    <!-- Footer on last page only (if specified) -->\<newline>'',
     ''                    '',
     footer_after_body a,
     ''\<newline>'',
     ''                </body>\<newline>''
  ]\<close>

definition buildIframeHTML :: "'a build_args_scheme \<Rightarrow> string" where
  \<open>buildIframeHTML a = concat [
     ''\<newline>'',
     ''            <html>\<newline>'',
     iframe_head a,
     iframe_body a,
     ''            </html>\<newline>'',
     ''        ''
  ]\<close>

section \<open>The execution host adapter\<close>

definition createElement_iframe :: iframe where
  "createElement_iframe =
     \<lparr>style_width = '''', style_height = '''', style_border = '''', style_position = '''',
      style_top = '''', style_left = '''', srcdoc = ''''\<rparr>"

text \<open>
  \<^verbatim>\<open>createIframe(containerSelector)\<close>, lines 608-626. Without a document,
  \<^verbatim>\<open>document.createElement\<close> throws a ReferenceError.
\<close>

definition createIframe :: "env \<Rightarrow> string option \<Rightarrow> js_error + iframe" where
  "createIframe env containerSelector' =
     (if \<not> has_document env then Inl (JsError ''document is not defined'')
      else if truthy containerSelector'
      then Inr (createElement_iframe
             \<lparr>style_width := ''100%'', style_height := ''100%'', style_border := ''none''\<rparr>)
      else Inr (createElement_iframe
             \<lparr>style_position := ''absolute'', style_top := ''-9999px'',
              style_left := ''-9999px'', style_border := ''none''\<rparr>))"

text \<open>
  \<^verbatim>\<open>getContainer(containerSelector)\<close>, lines 631-643. \<^verbatim>\<open>querySelector\<close> throws on a
  selector it cannot parse; \<^verbatim>\<open>document.body\<close> may be \<^verbatim>\<open>null\<close>.
\<close>

definition getContainer :: "env \<Rightarrow> string option \<Rightarrow> state \<Rightarrow> (js_error + node option) \<times> state" where
  \<open>getContainer env containerSelector' s =
     (if \<not> has_document env then (Inl (JsError ''document is not defined''), s)
      else case containerSelector' of
        None \<Rightarrow> (Inr (document_body env), s)
      | Some sel \<Rightarrow>
          if sel = [] then (Inr (document_body env), s)
          else (case document_querySelector env sel of
                  SyntaxError m \<Rightarrow> (Inl (JsError m), s)
                | Matched n \<Rightarrow> (Inr (Some n), s)
                | NoMatch \<Rightarrow>
                    (Inr (document_body env),
                     console_warn [concat [''Container with selector "'', sel,
                        ''" not found. Using document.body instead.'']] s)))\<close>

text \<open>\<^verbatim>\<open>container.appendChild(iframe)\<close>: a TypeError when the container is \<^verbatim>\<open>null\<close>.\<close>

definition appendChild :: "node option \<Rightarrow> iframe \<Rightarrow> state \<Rightarrow> (js_error + unit) \<times> state" where
  "appendChild container el s =
     (case container of
        None \<Rightarrow> (Inl (JsError ''Cannot read properties of null (reading \\'appendChild\\')''), s)
      | Some n \<Rightarrow> (Inr (), s\<lparr>children := (children s)(n := children s n @ [el])\<rparr>))"

section \<open>render\<close>

text \<open>The page numbering rule of \<^verbatim>\<open>render\<close>, lines 162-165.\<close>

definition render_pageNumberCSS :: "options \<Rightarrow> string" where
  \<open>render_pageNumberCSS opts =
     (if page_number_selector opts \<noteq> []
      then concat [
        page_number_selector opts,
        ''::before {\<newline>'',
        ''                    content: "Page " counter(page) " of " counter(pages) " ";\<newline>'',
        ''                }''
      ]
      else [])\<close>

text \<open>The document that \<^verbatim>\<open>render\<close> composes for one invocation, lines 168-182.\<close>

definition render_iframeHTML :: "nat \<Rightarrow> options \<Rightarrow> string" where
  "render_iframeHTML instanceId' opts =
     buildIframeHTML
       \<lparr>body_html = body_html opts, header_html = header_html opts,
        footer_html = footer_html opts, head_html = head_html opts,
        page_size = page_size opts, margin_left = margin_left opts,
        margin_right = margin_right opts, header_height = header_height opts,
        footer_height = footer_height opts,
        footer_only_on_last_page = footer_only_on_last_page opts,
        page_padding_top = page_padding_top opts,
        instanceId = instanceId', pageNumberCSS = render_pageNumberCSS opts\<rparr>"

text \<open>The \<^verbatim>\<open>try\<close> block of \<^verbatim>\<open>render\<close>, lines 146-190.\<close>

definition render_try :: "env \<Rightarrow> options \<Rightarrow> state \<Rightarrow> (js_error + unit) \<times> state" where
  \<open>render_try env opts s =
     (let (instanceId', s1) = allocate s;
          s2 = s1\<lparr>callbackStorage := (callbackStorage s1)(instanceId' \<mapsto> callback opts)\<rparr>;
          s3 = (if onPdfReady opts \<noteq> None \<or> onPdfError opts \<noteq> None
                then s2\<lparr>pdfCallbackStorage := (pdfCallbackStorage s2)(instanceId' \<mapsto>
                        \<lparr>pair_onPdfReady = onPdfReady opts, pair_onPdfError = onPdfError opts\<rparr>)\<rparr>
                else s2);
          iframeHTML = render_iframeHTML instanceId' opts
      in case createIframe env (containerSelector opts) of
           Inl e \<Rightarrow> (Inl e, s3)
         | Inr el \<Rightarrow>
             (case getContainer env (containerSelector opts) s3 of
                (Inl e, s4) \<Rightarrow> (Inl e, s4)
              | (Inr container, s4) \<Rightarrow> appendChild container (el\<lparr>srcdoc := iframeHTML\<rparr>) s4))\<close>

text \<open>
  \<^verbatim>\<open>render\<close>, lines 128-198: the \<^verbatim>\<open>catch\<close> block logs the error and calls
  \<^verbatim>\<open>onPdfError\<close> when there is one. The result is the settlement of the promise that the
  async function returns.
\<close>

definition render :: "env \<Rightarrow> options \<Rightarrow> state \<Rightarrow> unit promise \<times> state" where
  "render env opts s =
     (case render_try env opts s of
        (Inr _, s') \<Rightarrow> (Fulfilled (), s')
      | (Inl error, s') \<Rightarrow>
          (let s'' = console_error [''Pagify render error:'', error_message error] s'
           in (Fulfilled (),
               case onPdfError opts of
                 Some f \<Rightarrow> call_pdf env f (error_message error) s''
               | None \<Rightarrow> s'')))"

section \<open>The message listener\<close>

text \<open>
  The listener of \<^verbatim>\<open>initMessageListener\<close>, lines 38-77. A message whose \<^verbatim>\<open>iter\<close> is
  missing looks up the key \<^verbatim>\<open>undefined\<close>, which no table holds; in the two PDF branches a
  missing or zero \<^verbatim>\<open>iter\<close> is falsy.
\<close>

definition on_message :: "env \<Rightarrow> message \<Rightarrow> state \<Rightarrow> state" where
  "on_message env m s =
     (if msg_type m = ''renderpdf'' then
        (case msg_iter m of
           None \<Rightarrow> s
         | Some i \<Rightarrow>
             (let s1 = (case callbackStorage s i of
                          Some (Some callback') \<Rightarrow> call_completion callback' s
                        | _ \<Rightarrow> s)
              in s1\<lparr>callbackStorage := (callbackStorage s1)(i := None)\<rparr>))
      else if msg_type m = ''PDF_READY'' then
        (let s1 = console_log [''PDF blob ready:'', msg_blobUrl m] s;
             s2 = (case msg_iter m of
                     None \<Rightarrow> s1
                   | Some instanceId' \<Rightarrow>
                       if instanceId' = 0 then s1
                       else (case pdfCallbackStorage s1 instanceId' of
                               None \<Rightarrow> s1
                             | Some pair \<Rightarrow>
                                 (case pair_onPdfReady pair of
                                    None \<Rightarrow> s1
                                  | Some f \<Rightarrow>
                                      (let s' = call_pdf env f (msg_blobUrl m) s1
                                       in s'\<lparr>pdfCallbackStorage :=
                                               (pdfCallbackStorage s')(instanceId' := None)\<rparr>))))
         in dispatchEvent ''pdfReady'' ''blobUrl'' (msg_blobUrl m) s2)
      else if msg_type m = ''PDF_ERROR'' then
        (let s1 = console_error [''PDF generation error:'', msg_error m] s;
             s2 = (case msg_iter m of
                     None \<Rightarrow> s1
                   | Some instanceId' \<Rightarrow>
                       if instanceId' = 0 then s1
                       else (case pdfCallbackStorage s1 instanceId' of
                               None \<Rightarrow> s1
                             | Some pair \<Rightarrow>
                                 (case pair_onPdfError pair of
                                    None \<Rightarrow> s1
                                  | Some f \<Rightarrow>
                                      (let s' = call_pdf env f (msg_error m) s1
                                       in s'\<lparr>pdfCallbackStorage :=
                                               (pdfCallbackStorage s')(instanceId' := None)\<rparr>))))
         in dispatchEvent ''pdfError'' ''error'' (msg_error m) s2)
      else s)"


section \<open>generatePDF\<close>

text \<open>
  \<^verbatim>\<open>generatePDF(options)\<close>, lines 650-676. Without a window the async function throws
  before it does anything: the result is \<open>Inl\<close> of the error. Otherwise the result is the
  handle of a new promise, and \<^verbatim>\<open>render\<close> runs with the two closures in place of the
  caller's PDF callbacks.
\<close>

definition generatePDF :: "env \<Rightarrow> options \<Rightarrow> state \<Rightarrow> (js_error + nat) \<times> state" where
  "generatePDF env opts s =
     (if \<not> has_window env
      then (Inl (JsError ''Direct PDF generation is only available in browser environments''), s)
      else
        (let p = length (promises s);
             s0 = s\<lparr>promises := promises s @ [Pending]\<rparr>;
             modifiedOptions = opts\<lparr>onPdfReady := Some (FetchThenResolve p),
                                    onPdfError := Some (RejectWithError p)\<rparr>
         in case render env modifiedOptions s0 of
              (Rejected error, s1) \<Rightarrow> (Inr p, settle p (Rejected error) s1)
            | (_, s1) \<Rightarrow> (Inr p, s1)))"

section \<open>Inside the isolated context\<close>

text \<open>
  What the two generated scripts do when the iframe runs them. The pagination engine, the
  conversion engine and the iframe's own document are external: a record \<open>isolated\<close> gives the
  outcome of each of their steps (whether the fonts ever report ready, the import of Paged.js,
  the total of \<^verbatim>\<open>preview()\<close>, the loading of html2pdf by import or by script tag, whether
  the body has content that is not blank, the conversion, the blob output and the blob URL).
  A PDF under conversion is the list of its pages.
\<close>

record 'p isolated =
  fonts_ready :: bool
  import_pagedjs :: "js_error option"
  preview_total :: "js_error + int"
  load_html2pdf :: "js_error option"
  body_has_content :: bool
  toPdf :: "js_error + 'p list"
  outputPdf :: "'p list \<Rightarrow> js_error + blob"
  createObjectURL :: "blob \<Rightarrow> string"

text \<open>
  \<^verbatim>\<open>pdf.deletePage(n)\<close> of the conversion engine's document: pages are numbered from 1, and
  a number outside the document deletes nothing.
\<close>

definition deletePage :: "int \<Rightarrow> 'p list \<Rightarrow> 'p list" where
  "deletePage n pdf =
     (if 0 < n \<and> n \<le> int (length pdf) then take (nat n - 1) pdf @ drop (nat n) pdf else pdf)"

text \<open>The loop of lines 569-571.\<close>

function delete_loop :: "int \<Rightarrow> int \<Rightarrow> 'p list \<Rightarrow> 'p list" where
  "delete_loop i totalPages pdf =
     (if i > totalPages then delete_loop (i - 1) totalPages (deletePage i pdf) else pdf)"
  by pat_completeness auto
termination
  by (relation "measure (\<lambda>(i, totalPages, pdf). nat (i - totalPages))") auto

text \<open>The callback of \<^verbatim>\<open>.get("pdf").then\<close>, lines 564-573.\<close>

definition remove_extra_pages :: "int \<Rightarrow> 'p list \<Rightarrow> 'p list" where
  "remove_extra_pages totalPages pdf =
     (let pageCount = int (length pdf)
      in if pageCount > totalPages \<and> totalPages > 0
         then delete_loop pageCount totalPages pdf else pdf)"


definition post_PDF_READY :: "string \<Rightarrow> nat \<Rightarrow> message" where
  "post_PDF_READY blobUrl instanceId' =
     \<lparr>msg_type = ''PDF_READY'', msg_iter = Some instanceId', msg_blobUrl = blobUrl,
      msg_error = ''''\<rparr>"

definition post_PDF_ERROR :: "string \<Rightarrow> nat \<Rightarrow> message" where
  "post_PDF_ERROR error instanceId' =
     \<lparr>msg_type = ''PDF_ERROR'', msg_iter = Some instanceId', msg_blobUrl = '''',
      msg_error = error\<rparr>"

text \<open>
  \<^verbatim>\<open>generatePdfBlob()\<close> as \<^verbatim>\<open>getPdfGenerationScript\<close> writes it (lines 463-601): the
  messages it posts to the parent window.
\<close>

definition generatePdfBlob :: "nat \<Rightarrow> 'p isolated \<Rightarrow> int \<Rightarrow> message list" where
  "generatePdfBlob instanceId' c totalPages =
     (case load_html2pdf c of
        Some error \<Rightarrow> [post_PDF_ERROR (error_message error) instanceId']
      | None \<Rightarrow>
          if \<not> body_has_content c
          then [post_PDF_ERROR ''No content found in body element'' instanceId']
          else (case toPdf c of
                  Inl error \<Rightarrow> [post_PDF_ERROR (error_message error) instanceId']
                | Inr pdf \<Rightarrow>
                    (case outputPdf c (remove_extra_pages totalPages pdf) of
                       Inl error \<Rightarrow> [post_PDF_ERROR (error_message error) instanceId']
                     | Inr b \<Rightarrow> [post_PDF_READY (createObjectURL c b) instanceId'])))"


section \<open>Sequences of calls\<close>





section \<open>Terms of the specification\<close>

text \<open>
  The footer region in the words of the specification: one \<^verbatim>\<open>div\<close> of class
  \<^verbatim>\<open>footer\<close> around the footer content.
\<close>

definition footer_region :: "string \<Rightarrow> string" where
  \<open>footer_region content =
     ''<div class="footer" style="width: 100%">'' @ ''\<newline>                        '' @
     content @ ''\<newline>                    </div>''\<close>


section \<open>Two hosts\<close>

text \<open>
  The page of the test suite: a window, a document with a body (node 0) and one container
  \<^verbatim>\<open>#test-container\<close> (node 1); the blob URL of the test setup fetches to its blob.
\<close>

definition test_page :: env where
  "test_page =
     \<lparr>has_window = True, has_document = True, document_body = Some 0,
      document_querySelector =
        (\<lambda>sel. if sel = ''#test-container'' then Matched 1
              else if sel = ''['' then SyntaxError ''\\'[\\' is not a valid selector''
              else NoMatch),
      window_fetch =
        (\<lambda>url. if url = ''blob:mock-url'' then Inr (Blob ''test'')
              else Inl (JsError ''Failed to fetch''))\<rparr>"

text \<open>A host with neither window nor document, as Node.js is.\<close>

definition no_host :: env where
  "no_host =
     \<lparr>has_window = False, has_document = False, document_body = None,
      document_querySelector = (\<lambda>sel. NoMatch),
      window_fetch = (\<lambda>url. Inl (JsError ''fetch is not defined''))\<rparr>"

declare delete_loop.simps [simp del]
declare number_toString.simps [simp del]

section \<open>What each operation does to the state\<close>

lemma settle_proj [simp]:
  "instanceCounter (settle p v s) = instanceCounter s"
  "callbackStorage (settle p v s) = callbackStorage s"
  "pdfCallbackStorage (settle p v s) = pdfCallbackStorage s"
  "listening (settle p v s) = listening s"
  "children (settle p v s) = children s"
  "trace (settle p v s) = trace s"
  "length (promises (settle p v s)) = length (promises s)"
  by (simp_all add: settle_def)

lemma call_pdf_proj [simp]:
  "instanceCounter (call_pdf env f a s) = instanceCounter s"
  "callbackStorage (call_pdf env f a s) = callbackStorage s"
  "pdfCallbackStorage (call_pdf env f a s) = pdfCallbackStorage s"
  "listening (call_pdf env f a s) = listening s"
  "children (call_pdf env f a s) = children s"
  "length (promises (call_pdf env f a s)) = length (promises s)"
  by (cases f; simp split: sum.splits)+

lemma call_pdf_trace:
  "trace (call_pdf env f a s) =
     trace s @ (case f of UserCallback k \<Rightarrow> [Invoked k [a]] | _ \<Rightarrow> [])"
  by (cases f) (simp_all split: sum.splits)

lemma render_try_registry:
  "instanceCounter (snd (render_try env opts s)) = instanceCounter s + 1"
  "callbackStorage (snd (render_try env opts s)) =
     (callbackStorage s)(instanceCounter s \<mapsto> callback opts)"
  "pdfCallbackStorage (snd (render_try env opts s)) =
     (if onPdfReady opts \<noteq> None \<or> onPdfError opts \<noteq> None
      then (pdfCallbackStorage s)(instanceCounter s \<mapsto>
             \<lparr>pair_onPdfReady = onPdfReady opts, pair_onPdfError = onPdfError opts\<rparr>)
      else pdfCallbackStorage s)"
  "listening (snd (render_try env opts s)) = listening s"
  "promises (snd (render_try env opts s)) = promises s"
  by (simp_all add: render_try_def allocate_def createIframe_def getContainer_def
        appendChild_def console_warn_def Let_def
      split: sum.splits option.splits query_result.splits prod.splits)

lemma render_registry:
  "instanceCounter (snd (render env opts s)) = instanceCounter s + 1"
  "callbackStorage (snd (render env opts s)) =
     (callbackStorage s)(instanceCounter s \<mapsto> callback opts)"
  "pdfCallbackStorage (snd (render env opts s)) =
     (if onPdfReady opts \<noteq> None \<or> onPdfError opts \<noteq> None
      then (pdfCallbackStorage s)(instanceCounter s \<mapsto>
             \<lparr>pair_onPdfReady = onPdfReady opts, pair_onPdfError = onPdfError opts\<rparr>)
      else pdfCallbackStorage s)"
  "listening (snd (render env opts s)) = listening s"
  using render_try_registry [of env opts s]
  by (auto simp add: render_def console_error_def Let_def
      split: sum.splits option.splits prod.splits)

lemma render_settles: "fst (render env opts s) = Fulfilled ()"
  by (simp add: render_def Let_def split: prod.splits sum.splits)

lemma generatePDF_eq:
  "generatePDF env opts s =
     (if \<not> has_window env
      then (Inl (JsError ''Direct PDF generation is only available in browser environments''), s)
      else (Inr (length (promises s)),
            snd (render env
                  (opts\<lparr>onPdfReady := Some (FetchThenResolve (length (promises s))),
                        onPdfError := Some (RejectWithError (length (promises s)))\<rparr>)
                  (s\<lparr>promises := promises s @ [Pending]\<rparr>))))"
proof (cases "has_window env")
  case False
  then show ?thesis by (simp add: generatePDF_def)
next
  case True
  obtain s1 where r: "render env
      (opts\<lparr>onPdfReady := Some (FetchThenResolve (length (promises s))),
            onPdfError := Some (RejectWithError (length (promises s)))\<rparr>)
      (s\<lparr>promises := promises s @ [Pending]\<rparr>) = (Fulfilled (), s1)"
    by (metis render_settles prod.collapse)
  with True show ?thesis by (simp add: generatePDF_def Let_def)
qed



lemma render_try_result:
  \<open>fst (render_try env opts s) =
     (if \<not> has_document env then Inl (JsError ''document is not defined'')
      else case (if truthy (containerSelector opts)
                 then document_querySelector env (the (containerSelector opts)) else NoMatch) of
        SyntaxError m \<Rightarrow> Inl (JsError m)
      | Matched n \<Rightarrow> Inr ()
      | NoMatch \<Rightarrow>
          (case document_body env of
             None \<Rightarrow> Inl (JsError ''Cannot read properties of null (reading \'appendChild\')'')
           | Some n \<Rightarrow> Inr ()))\<close>
  by (auto simp add: render_try_def allocate_def createIframe_def getContainer_def
        appendChild_def console_warn_def Let_def
      split: sum.splits option.splits query_result.splits prod.splits)

lemma render_state:
  "snd (render env opts s) =
     (case fst (render_try env opts s) of
        Inr u \<Rightarrow> snd (render_try env opts s)
      | Inl error \<Rightarrow>
          (case onPdfError opts of
             Some f \<Rightarrow> call_pdf env f (error_message error)
                (console_error [''Pagify render error:'', error_message error]
                   (snd (render_try env opts s)))
           | None \<Rightarrow> console_error [''Pagify render error:'', error_message error]
                (snd (render_try env opts s))))"
  by (simp add: render_def Let_def split: prod.splits sum.splits option.splits)

lemma render_trace:
  "trace (snd (render env opts s)) =
     trace (snd (render_try env opts s)) @
     (case fst (render_try env opts s) of
        Inr u \<Rightarrow> []
      | Inl error \<Rightarrow>
          ConsoleError [''Pagify render error:'', error_message error] #
          (case onPdfError opts of
             Some (UserCallback f) \<Rightarrow> [Invoked f [error_message error]]
           | _ \<Rightarrow> []))"
  by (simp add: render_state call_pdf_trace console_error_def
      split: sum.splits option.splits pdf_callback.splits)


lemma on_message_instanceCounter [simp]:
  "instanceCounter (on_message env m s) = instanceCounter s"
  by (simp add: on_message_def call_completion_def console_log_def console_error_def
        dispatchEvent_def Let_def split: option.splits)

section \<open>The identifiers of a sequence of calls\<close>








section \<open>Trimming the converted document\<close>





section \<open>Messages from the isolated context\<close>




lemma on_message_ready_hit:
  assumes "msg_type m = ''PDF_READY''" "msg_iter m = Some i" "i \<noteq> 0"
    "pdfCallbackStorage s i = Some pair" "pair_onPdfReady pair = Some f"
  shows "on_message env m s =
     dispatchEvent ''pdfReady'' ''blobUrl'' (msg_blobUrl m)
       ((call_pdf env f (msg_blobUrl m) (console_log [''PDF blob ready:'', msg_blobUrl m] s))
          \<lparr>pdfCallbackStorage := (pdfCallbackStorage s)(i := None)\<rparr>)"
  using assms by (simp add: on_message_def Let_def console_log_def)


lemma on_message_error_hit:
  assumes "msg_type m = ''PDF_ERROR''" "msg_iter m = Some i" "i \<noteq> 0"
    "pdfCallbackStorage s i = Some pair" "pair_onPdfError pair = Some f"
  shows "on_message env m s =
     dispatchEvent ''pdfError'' ''error'' (msg_error m)
       ((call_pdf env f (msg_error m) (console_error [''PDF generation error:'', msg_error m] s))
          \<lparr>pdfCallbackStorage := (pdfCallbackStorage s)(i := None)\<rparr>)"
  using assms by (simp add: on_message_def Let_def console_error_def)


lemma effect_proj [simp]:
  "trace (console_log a s) = trace s @ [ConsoleLog a]"
  "trace (console_error a s) = trace s @ [ConsoleError a]"
  "trace (console_warn a s) = trace s @ [ConsoleWarn a]"
  "trace (dispatchEvent n k v s) = trace s @ [DispatchEvent n k v]"
  "pdfCallbackStorage (console_log a s) = pdfCallbackStorage s"
  "pdfCallbackStorage (console_error a s) = pdfCallbackStorage s"
  "pdfCallbackStorage (dispatchEvent n k v s) = pdfCallbackStorage s"
  "callbackStorage (console_log a s) = callbackStorage s"
  "callbackStorage (console_error a s) = callbackStorage s"
  "callbackStorage (dispatchEvent n k v s) = callbackStorage s"
  "promises (console_log a s) = promises s"
  "promises (console_error a s) = promises s"
  "promises (dispatchEvent n k v s) = promises s"
  by (simp_all add: console_log_def console_error_def console_warn_def dispatchEvent_def)







section \<open>Settlement and mounting of render\<close>

lemma effect_children [simp]:
  "children (console_log a s) = children s"
  "children (console_error a s) = children s"
  "children (console_warn a s) = children s"
  "children (dispatchEvent n k v s) = children s"
  by (simp_all add: console_log_def console_error_def console_warn_def dispatchEvent_def)

lemma render_children:
  "children (snd (render env opts s)) = children (snd (render_try env opts s))"
  by (simp add: render_state split: sum.splits option.splits)



lemma render_try_matched:
  assumes "has_document env" "containerSelector opts = Some sel" "sel \<noteq> []"
    "document_querySelector env sel = Matched n"
  shows "render_try env opts s =
     (Inr (),
      (snd (render_try env opts s))) \<and>
     children (snd (render_try env opts s)) =
       (children s)(n := children s n @
         [createElement_iframe\<lparr>style_width := ''100%'', style_height := ''100%'',
            style_border := ''none'', srcdoc := render_iframeHTML (instanceCounter s) opts\<rparr>]) \<and>
     trace (snd (render_try env opts s)) = trace s"
  using assms
  by (simp add: render_try_def allocate_def createIframe_def getContainer_def
        appendChild_def Let_def)

text \<open>
  C9, as amended. When the mount selector resolves to an existing node, \<^verbatim>\<open>render\<close>
  appends exactly one iframe to the children of that node and to no other node: an iframe of
  width and height \<^verbatim>\<open>100%\<close> whose border is \<^verbatim>\<open>none\<close>, holding the composed document.
  No diagnostic is written.
\<close>

theorem render_mounts_borderless_iframe_in_container:
  "has_document env \<Longrightarrow> containerSelector opts = Some sel \<Longrightarrow> sel \<noteq> [] \<Longrightarrow>
   document_querySelector env sel = Matched n \<Longrightarrow>
     children (snd (render env opts s)) =
       (children s)(n := children s n @
         [\<lparr>style_width = ''100%'', style_height = ''100%'', style_border = ''none'',
           style_position = '''', style_top = '''', style_left = '''',
           srcdoc = render_iframeHTML (instanceCounter s) opts\<rparr>]) \<and>
     trace (snd (render env opts s)) = trace s"
proof -
  assume h: "has_document env" "containerSelector opts = Some sel" "sel \<noteq> []"
    "document_querySelector env sel = Matched n"
  have r: "fst (render_try env opts s) = Inr ()"
    using h by (simp add: render_try_result)
  from render_try_matched [OF h, of s] r show ?thesis
    by (simp add: render_children render_trace createElement_iframe_def)
qed

theorem render_mounts_borderless_iframe_in_container_witness:
  "children (snd (render test_page
       (default_options\<lparr>body_html := ''<h1>X</h1>'', containerSelector := Some ''#test-container''\<rparr>)
       (constructor test_page))) 1 =
     [\<lparr>style_width = ''100%'', style_height = ''100%'', style_border = ''none'',
       style_position = '''', style_top = '''', style_left = '''',
       srcdoc = render_iframeHTML 1
         (default_options\<lparr>body_html := ''<h1>X</h1>'',
            containerSelector := Some ''#test-container''\<rparr>)\<rparr>] \<and>
   children (snd (render test_page
       (default_options\<lparr>body_html := ''<h1>X</h1>'', containerSelector := Some ''#test-container''\<rparr>)
       (constructor test_page))) 0 = []"
  using render_mounts_borderless_iframe_in_container [of test_page
      "default_options\<lparr>body_html := ''<h1>X</h1>'', containerSelector := Some ''#test-container''\<rparr>"
      "''#test-container''" 1 "constructor test_page"]
  by (simp add: test_page_def default_options_def constructor_def)

text \<open>
  C9 as stated fails: the one iframe that the call appends to the container has the border
  \<^verbatim>\<open>none\<close> (line 616), so it is not bordered.
\<close>

theorem render_in_container_border_counterexample:
  "map style_border (children (snd (render test_page
       (default_options\<lparr>body_html := ''<h1>X</h1>'', containerSelector := Some ''#test-container''\<rparr>)
       (constructor test_page))) 1) = [''none'']"
proof -
  have h: "has_document test_page" "document_querySelector test_page ''#test-container'' = Matched 1"
    by (simp_all add: test_page_def)
  have o: "containerSelector (default_options\<lparr>body_html := ''<h1>X</h1>'',
      containerSelector := Some ''#test-container''\<rparr>) = Some ''#test-container''"
    by simp
  have r: "fst (render_try test_page (default_options\<lparr>body_html := ''<h1>X</h1>'',
      containerSelector := Some ''#test-container''\<rparr>) (constructor test_page)) = Inr ()"
    using h by (simp add: render_try_result)
  from render_try_matched [OF h(1) o _ h(2), of "constructor test_page"] r show ?thesis
    by (simp add: render_children constructor_def createElement_iframe_def)
qed

section \<open>The promise of generatePDF\<close>

lemma settle_last:
  "promises s = ps @ [Pending] \<Longrightarrow> promises (settle (length ps) v s) = ps @ [v]"
  by (simp add: settle_def nth_append)

lemma render_try_result_cong:
  "containerSelector opts' = containerSelector opts \<Longrightarrow>
   fst (render_try env opts' s') = fst (render_try env opts s)"
  by (simp only: render_try_result)

lemma call_pdf_promises_cong:
  "promises s = promises s' \<Longrightarrow>
   promises (call_pdf env f a s) = promises (call_pdf env f a s')"
  by (cases f) (auto simp add: settle_def split: sum.splits)

lemma render_promises:
  "promises (snd (render env opts s)) =
     (case fst (render_try env opts s) of
        Inr u \<Rightarrow> promises s
      | Inl error \<Rightarrow>
          (case onPdfError opts of
             Some f \<Rightarrow> promises (call_pdf env f (error_message error) s)
           | None \<Rightarrow> promises s))"
proof (cases "fst (render_try env opts s)")
  case (Inr u)
  then show ?thesis by (simp add: render_state render_try_registry)
next
  case (Inl error)
  show ?thesis
  proof (cases "onPdfError opts")
    case None
    with Inl show ?thesis by (simp add: render_state render_try_registry)
  next
    case (Some f)
    have "promises (console_error [''Pagify render error:'', error_message error]
        (snd (render_try env opts s))) = promises s"
      by (simp add: render_try_registry)
    from call_pdf_promises_cong [OF this] Inl Some show ?thesis
      by (simp add: render_state)
  qed
qed

lemma generatePDF_state:
  assumes w: "has_window env"
  shows "pdfCallbackStorage (snd (generatePDF env opts s)) (instanceCounter s) =
       Some \<lparr>pair_onPdfReady = Some (FetchThenResolve (length (promises s))),
             pair_onPdfError = Some (RejectWithError (length (promises s)))\<rparr>"
    and "promises (snd (generatePDF env opts s)) =
       promises s @ [case fst (render_try env opts s) of
                       Inr u \<Rightarrow> Pending
                     | Inl error \<Rightarrow> Rejected (JsError (error_message error))]"
proof -
  let ?p = "length (promises s)"
  let ?opts = "opts\<lparr>onPdfReady := Some (FetchThenResolve ?p), onPdfError := Some (RejectWithError ?p)\<rparr>"
  let ?s0 = "s\<lparr>promises := promises s @ [Pending]\<rparr>"
  have s1: "snd (generatePDF env opts s) = snd (render env ?opts ?s0)"
    using w by (simp add: generatePDF_eq)
  show "pdfCallbackStorage (snd (generatePDF env opts s)) (instanceCounter s) =
       Some \<lparr>pair_onPdfReady = Some (FetchThenResolve ?p),
             pair_onPdfError = Some (RejectWithError ?p)\<rparr>"
    by (simp add: s1 render_registry)
  have f: "fst (render_try env ?opts ?s0) = fst (render_try env opts s)"
    by (rule render_try_result_cong) simp
  have l: "promises ?s0 = promises s @ [Pending]" by simp
  show "promises (snd (generatePDF env opts s)) =
       promises s @ [case fst (render_try env opts s) of
                       Inr u \<Rightarrow> Pending
                     | Inl error \<Rightarrow> Rejected (JsError (error_message error))]"
    using settle_last [OF l]
    by (simp add: s1 render_promises f split: sum.splits)
qed

text \<open>
  C8. Without a window \<^verbatim>\<open>generatePDF\<close> is rejected at once and the state is untouched: no
  identifier, no document, no iframe. With a window it returns a new pending promise and runs
  \<^verbatim>\<open>render\<close> with its two closures as the PDF callbacks, stored under the allocated
  identifier; a failed mount rejects the promise with the error's message. After a successful
  mount, the \<^verbatim>\<open>PDF_READY\<close> message for the identifier settles the promise with what
  fetching the blob URL gives (the blob, or the fetch error), and the \<^verbatim>\<open>PDF_ERROR\<close>
  message rejects it with an error carrying the message text.
\<close>

theorem generatePDF_rejects_without_window_else_renders:
  "(\<not> has_window env \<longrightarrow>
      generatePDF env opts s =
        (Inl (JsError ''Direct PDF generation is only available in browser environments''), s)) \<and>
   (has_window env \<longrightarrow>
      generatePDF env opts s =
        (Inr (length (promises s)),
         snd (render env
               (opts\<lparr>onPdfReady := Some (FetchThenResolve (length (promises s))),
                     onPdfError := Some (RejectWithError (length (promises s)))\<rparr>)
               (s\<lparr>promises := promises s @ [Pending]\<rparr>))) \<and>
      pdfCallbackStorage (snd (generatePDF env opts s)) (instanceCounter s) =
        Some \<lparr>pair_onPdfReady = Some (FetchThenResolve (length (promises s))),
              pair_onPdfError = Some (RejectWithError (length (promises s)))\<rparr> \<and>
      promises (snd (generatePDF env opts s)) =
        promises s @ [case fst (render_try env opts s) of
                        Inr u \<Rightarrow> Pending
                      | Inl error \<Rightarrow> Rejected (JsError (error_message error))] \<and>
      (fst (render_try env opts s) = Inr () \<and> instanceCounter s \<noteq> 0 \<longrightarrow>
         promises (on_message env' (post_PDF_READY url (instanceCounter s))
                     (snd (generatePDF env opts s))) =
           promises s @ [case window_fetch env' url of
                           Inr b \<Rightarrow> Fulfilled b | Inl error \<Rightarrow> Rejected error] \<and>
         promises (on_message env' (post_PDF_ERROR msg (instanceCounter s))
                     (snd (generatePDF env opts s))) =
           promises s @ [Rejected (JsError msg)]))"
proof (intro conjI impI)
  assume "\<not> has_window env"
  then show "generatePDF env opts s =
        (Inl (JsError ''Direct PDF generation is only available in browser environments''), s)"
    by (simp add: generatePDF_eq)
next
  assume "has_window env"
  then show "generatePDF env opts s =
        (Inr (length (promises s)),
         snd (render env
               (opts\<lparr>onPdfReady := Some (FetchThenResolve (length (promises s))),
                     onPdfError := Some (RejectWithError (length (promises s)))\<rparr>)
               (s\<lparr>promises := promises s @ [Pending]\<rparr>)))"
    by (simp add: generatePDF_eq)
next
  assume "has_window env"
  then show "pdfCallbackStorage (snd (generatePDF env opts s)) (instanceCounter s) =
        Some \<lparr>pair_onPdfReady = Some (FetchThenResolve (length (promises s))),
              pair_onPdfError = Some (RejectWithError (length (promises s)))\<rparr>"
    by (rule generatePDF_state)
next
  assume "has_window env"
  then show "promises (snd (generatePDF env opts s)) =
        promises s @ [case fst (render_try env opts s) of
                        Inr u \<Rightarrow> Pending
                      | Inl error \<Rightarrow> Rejected (JsError (error_message error))]"
    by (rule generatePDF_state)
next
  assume w: "has_window env" and ok: "fst (render_try env opts s) = Inr () \<and> instanceCounter s \<noteq> 0"
  let ?s1 = "snd (generatePDF env opts s)"
  let ?m = "post_PDF_READY url (instanceCounter s)"
  have pr: "promises ?s1 = promises s @ [Pending]"
    using generatePDF_state(2) [OF w, of opts s] ok by simp
  have m: "msg_type ?m = ''PDF_READY''" "msg_iter ?m = Some (instanceCounter s)"
    "msg_blobUrl ?m = url"
    by (simp_all add: post_PDF_READY_def)
  have i: "instanceCounter s \<noteq> 0" using ok by simp
  have "promises (on_message env' ?m ?s1) =
      promises (call_pdf env' (FetchThenResolve (length (promises s))) url
        (console_log [''PDF blob ready:'', url] ?s1))"
    by (simp add: on_message_ready_hit [OF m(1) m(2) i generatePDF_state(1) [OF w]] m(3)
        del: call_pdf.simps)
  also have "\<dots> = promises (call_pdf env' (FetchThenResolve (length (promises s))) url ?s1)"
    by (rule call_pdf_promises_cong) simp
  also have "\<dots> = promises s @ [case window_fetch env' url of
                           Inr b \<Rightarrow> Fulfilled b | Inl error \<Rightarrow> Rejected error]"
    using settle_last [OF pr] by (simp split: sum.splits)
  finally show "promises (on_message env' ?m ?s1) =
           promises s @ [case window_fetch env' url of
                           Inr b \<Rightarrow> Fulfilled b | Inl error \<Rightarrow> Rejected error]" .
next
  assume w: "has_window env" and ok: "fst (render_try env opts s) = Inr () \<and> instanceCounter s \<noteq> 0"
  let ?s1 = "snd (generatePDF env opts s)"
  let ?m = "post_PDF_ERROR msg (instanceCounter s)"
  have pr: "promises ?s1 = promises s @ [Pending]"
    using generatePDF_state(2) [OF w, of opts s] ok by simp
  have m: "msg_type ?m = ''PDF_ERROR''" "msg_iter ?m = Some (instanceCounter s)"
    "msg_error ?m = msg"
    by (simp_all add: post_PDF_ERROR_def)
  have i: "instanceCounter s \<noteq> 0" using ok by simp
  have "promises (on_message env' ?m ?s1) =
      promises (call_pdf env' (RejectWithError (length (promises s))) msg
        (console_error [''PDF generation error:'', msg] ?s1))"
    by (simp add: on_message_error_hit [OF m(1) m(2) i generatePDF_state(1) [OF w]] m(3)
        del: call_pdf.simps)
  also have "\<dots> = promises (call_pdf env' (RejectWithError (length (promises s))) msg ?s1)"
    by (rule call_pdf_promises_cong) simp
  also have "\<dots> = promises s @ [Rejected (JsError msg)]"
    using settle_last [OF pr] by simp
  finally show "promises (on_message env' ?m ?s1) = promises s @ [Rejected (JsError msg)]" .
qed

theorem generatePDF_rejects_without_window_else_renders_witness:
  "generatePDF no_host default_options (constructor no_host) =
     (Inl (JsError ''Direct PDF generation is only available in browser environments''),
      constructor no_host) \<and>
   fst (generatePDF test_page default_options (constructor test_page)) = Inr 0 \<and>
   promises (snd (generatePDF test_page default_options (constructor test_page))) = [Pending] \<and>
   promises (on_message test_page (post_PDF_READY ''blob:mock-url'' 1)
      (snd (generatePDF test_page default_options (constructor test_page)))) =
     [Fulfilled (Blob ''test'')] \<and>
   promises (on_message test_page (post_PDF_ERROR ''boom'' 1)
      (snd (generatePDF test_page default_options (constructor test_page)))) =
     [Rejected (JsError ''boom'')]"
proof -
  have c: "instanceCounter (constructor test_page) = 1" "promises (constructor test_page) = []"
    by (simp_all add: constructor_def)
  have r: "fst (render_try test_page default_options (constructor test_page)) = Inr ()"
    by (simp add: render_try_result test_page_def default_options_def)
  have w: "has_window test_page" "\<not> has_window no_host"
    by (simp_all add: test_page_def no_host_def)
  have f: "window_fetch test_page ''blob:mock-url'' = Inr (Blob ''test'')"
    by (simp add: test_page_def)
  have ok: "fst (render_try test_page default_options (constructor test_page)) = Inr () \<and>
      instanceCounter (constructor test_page) \<noteq> 0"
    using r c by simp
  note n = generatePDF_rejects_without_window_else_renders [where env = no_host
      and opts = default_options and s = "constructor no_host", THEN conjunct1, THEN mp, OF w(2)]
  note t = generatePDF_rejects_without_window_else_renders [where env = test_page
      and opts = default_options and s = "constructor test_page" and env' = test_page
      and url = "''blob:mock-url''" and msg = "''boom''", THEN conjunct2, THEN mp, OF w(1)]
  note t1 = t [THEN conjunct1]
  note t3 = t [THEN conjunct2, THEN conjunct2, THEN conjunct1]
  note t4 = t [THEN conjunct2, THEN conjunct2, THEN conjunct2, THEN mp, OF ok]
  have a: "fst (generatePDF test_page default_options (constructor test_page)) = Inr 0"
    by (simp only: t1 fst_conv c list.size)
  have b: "promises (snd (generatePDF test_page default_options (constructor test_page))) =
      [Pending]"
    by (simp only: t3 r c sum.case append_Nil)
  have d: "promises (on_message test_page (post_PDF_READY ''blob:mock-url'' 1)
      (snd (generatePDF test_page default_options (constructor test_page)))) =
     [Fulfilled (Blob ''test'')]"
    using t4 [THEN conjunct1] by (simp only: c f sum.case append_Nil)
  have e: "promises (on_message test_page (post_PDF_ERROR ''boom'' 1)
      (snd (generatePDF test_page default_options (constructor test_page)))) =
     [Rejected (JsError ''boom'')]"
    using t4 [THEN conjunct2] by (simp only: c append_Nil)
  from n a b d e show ?thesis by (intro conjI)
qed

section \<open>The composed document\<close>

lemma sublist_concat_member: "x \<in> set xs \<Longrightarrow> sublist x (concat xs)"
proof -
  assume "x \<in> set xs"
  then obtain ys zs where "xs = ys @ x # zs" by (auto dest: split_list)
  then have "concat xs = concat ys @ x @ concat zs" by simp
  then show ?thesis unfolding sublist_def by blast
qed


lemma iframe_body_sublist: "sublist (iframe_body a) (buildIframeHTML a)"
  unfolding buildIframeHTML_def by (rule sublist_concat_member) simp










lemma iframe_head_footer_indep:
  "iframe_head (a\<lparr>footer_only_on_last_page := fl, footer_html := ft\<rparr>) = iframe_head a"
  by (simp add: iframe_head_def)

text \<open>
  C5. For every argument record the composed document is a fixed frame around the body content
  with two footer positions, one before the body and one after it. With
  \<^verbatim>\<open>footer_only_on_last_page\<close> false the position before the body holds exactly one
  footer region and the position after it is empty; with the flag true it is the reverse. The
  frame does not depend on the flag or on the footer content.
\<close>

theorem footer_in_exactly_one_position:
  "footer_before_body a =
     (if footer_only_on_last_page a then [] else footer_region (footer_html a)) \<and>
   footer_after_body a =
     (if footer_only_on_last_page a then footer_region (footer_html a) else []) \<and>
   footer_region (footer_html a) \<noteq> [] \<and>
   (\<exists>pre mid sep post. \<forall>fl ft.
      buildIframeHTML (a\<lparr>footer_only_on_last_page := fl, footer_html := ft\<rparr>) =
        pre @ (if fl then [] else footer_region ft) @ mid @ body_html a @ sep @
        (if fl then footer_region ft else []) @ post)"
proof (intro conjI)
  show "footer_before_body a =
     (if footer_only_on_last_page a then [] else footer_region (footer_html a))"
    by (simp add: footer_before_body_def footer_region_def)
  show "footer_after_body a =
     (if footer_only_on_last_page a then footer_region (footer_html a) else [])"
    by (simp add: footer_after_body_def footer_region_def)
  show "footer_region (footer_html a) \<noteq> []"
    by (simp add: footer_region_def)
  let ?pre = \<open>concat [
        ''\<newline>'',
        ''            <html>\<newline>'',
        iframe_head a,
        ''                <body>\<newline>'',
        ''                    <!-- Header content (appears on every page) -->\<newline>'',
        ''                    <div class="header" style="width: 100%">\<newline>'',
        ''                        '',
        header_html a,
        ''\<newline>'',
        ''                    </div>\<newline>'',
        ''                    \<newline>'',
        ''                    <!-- Footer content (conditional positioning) -->\<newline>'',
        ''                    '']\<close>
  let ?mid = \<open>concat [
        ''\<newline>'',
        ''                    \<newline>'',
        ''                    <!-- Main body content -->\<newline>'',
        ''                    '']\<close>
  let ?sep = \<open>concat [
        ''\<newline>'',
        ''\<newline>'',
        ''                    <!-- Footer on last page only (if specified) -->\<newline>'',
        ''                    '']\<close>
  let ?post = \<open>concat [
        ''\<newline>'',
        ''                </body>\<newline>'',
        ''            </html>\<newline>'',
        ''        '']\<close>
  have "\<forall>fl ft.
      buildIframeHTML (a\<lparr>footer_only_on_last_page := fl, footer_html := ft\<rparr>) =
        ?pre @ (if fl then [] else footer_region ft) @ ?mid @ body_html a @ ?sep @
        (if fl then footer_region ft else []) @ ?post"
    by (simp add: buildIframeHTML_def iframe_body_def footer_before_body_def
          footer_after_body_def footer_region_def iframe_head_footer_indep)
  then show "\<exists>pre mid sep post. \<forall>fl ft.
      buildIframeHTML (a\<lparr>footer_only_on_last_page := fl, footer_html := ft\<rparr>) =
        pre @ (if fl then [] else footer_region ft) @ mid @ body_html a @ sep @
        (if fl then footer_region ft else []) @ post"
    by blast
qed

theorem footer_in_exactly_one_position_witness:
  "footer_before_body
     \<lparr>body_html = ''<h1>Test</h1>'', header_html = ''<div>Header</div>'',
      footer_html = ''<div>Footer</div>'', head_html = '''', page_size = ''A4'',
      margin_left = ''10mm'', margin_right = ''10mm'', header_height = ''15mm'',
      footer_height = ''15mm'', footer_only_on_last_page = False, page_padding_top = ''16px'',
      instanceId = 1, pageNumberCSS = ''''\<rparr> = footer_region ''<div>Footer</div>'' \<and>
   footer_after_body
     \<lparr>body_html = ''<h1>Test</h1>'', header_html = ''<div>Header</div>'',
      footer_html = ''<div>Footer</div>'', head_html = '''', page_size = ''A4'',
      margin_left = ''10mm'', margin_right = ''10mm'', header_height = ''15mm'',
      footer_height = ''15mm'', footer_only_on_last_page = False, page_padding_top = ''16px'',
      instanceId = 1, pageNumberCSS = ''''\<rparr> = [] \<and>
   footer_before_body
     \<lparr>body_html = ''<h1>Test</h1>'', header_html = ''<div>Header</div>'',
      footer_html = ''<div>Footer</div>'', head_html = '''', page_size = ''A4'',
      margin_left = ''10mm'', margin_right = ''10mm'', header_height = ''15mm'',
      footer_height = ''15mm'', footer_only_on_last_page = True, page_padding_top = ''16px'',
      instanceId = 1, pageNumberCSS = ''''\<rparr> = [] \<and>
   footer_after_body
     \<lparr>body_html = ''<h1>Test</h1>'', header_html = ''<div>Header</div>'',
      footer_html = ''<div>Footer</div>'', head_html = '''', page_size = ''A4'',
      margin_left = ''10mm'', margin_right = ''10mm'', header_height = ''15mm'',
      footer_height = ''15mm'', footer_only_on_last_page = True, page_padding_top = ''16px'',
      instanceId = 1, pageNumberCSS = ''''\<rparr> = footer_region ''<div>Footer</div>''"
proof -
  let ?a = "\<lparr>body_html = ''<h1>Test</h1>'', header_html = ''<div>Header</div>'',
      footer_html = ''<div>Footer</div>'', head_html = [], page_size = ''A4'',
      margin_left = ''10mm'', margin_right = ''10mm'', header_height = ''15mm'',
      footer_height = ''15mm'', footer_only_on_last_page = False, page_padding_top = ''16px'',
      instanceId = 1, pageNumberCSS = []\<rparr>"
  let ?b = "\<lparr>body_html = ''<h1>Test</h1>'', header_html = ''<div>Header</div>'',
      footer_html = ''<div>Footer</div>'', head_html = [], page_size = ''A4'',
      margin_left = ''10mm'', margin_right = ''10mm'', header_height = ''15mm'',
      footer_height = ''15mm'', footer_only_on_last_page = True, page_padding_top = ''16px'',
      instanceId = 1, pageNumberCSS = []\<rparr>"
  note a = footer_in_exactly_one_position [of ?a]
  note b = footer_in_exactly_one_position [of ?b]
  have "footer_before_body ?a = footer_region ''<div>Footer</div>''"
    using a [THEN conjunct1] by simp
  moreover have "footer_after_body ?a = []"
    using a [THEN conjunct2, THEN conjunct1] by simp
  moreover have "footer_before_body ?b = []"
    using b [THEN conjunct1] by simp
  moreover have "footer_after_body ?b = footer_region ''<div>Footer</div>''"
    using b [THEN conjunct2, THEN conjunct1] by simp
  ultimately show ?thesis by (intro conjI)
qed



end
